theory Spec2Isabelle
  imports Main "HOL-Library.Sublist"
begin

section \<open>Research orchestrator: values, exceptions and Python primitives\<close>

text \<open>
  The development embeds \<^verbatim>\<open>research_orchestrator.py\<close> (class
  \<^verbatim>\<open>ResearchOrchestrator\<close>). Everything the class obtains from outside (the HTTP
  request to the search provider, the three kinds of generation call, the JSON decoder) is
  a parameter of the model; every raise of the source is a value \<open>Inl e\<close>.
  A Python \<^verbatim>\<open>str\<close> is a \<open>string\<close>, one \<open>char\<close> per character, so \<open>length\<close> and
  \<open>take\<close> count what \<^verbatim>\<open>len\<close> and slicing count. The status channel
  (\<^verbatim>\<open>log_status\<close>) and the session storage (\<^verbatim>\<open>save_json\<close>) do not influence any
  returned value and are left out.
\<close>

datatype json =
    JNull
  | JBool bool
  | JNum int
  | JStr string
  | JArr "json list"
  | JObj "(string \<times> json) list"

datatype exn =
    JSONDecodeError string
  | KeyError string
  | TypeError string
  | AttributeError string
  | IndexError string
  | HTTPError string
  | Exception string

text \<open>\<^verbatim>\<open>str(e)\<close>: the message; a \<^verbatim>\<open>KeyError\<close> prints the repr of its key.\<close>

fun str_exn :: "exn \<Rightarrow> string" where
  "str_exn (JSONDecodeError m) = m"
| "str_exn (KeyError k) = [CHR 0x27] @ k @ [CHR 0x27]"
| "str_exn (TypeError m) = m"
| "str_exn (AttributeError m) = m"
| "str_exn (IndexError m) = m"
| "str_exn (HTTPError m) = m"
| "str_exn (Exception m) = m"

text \<open>Truth value of a decoded JSON value, as \<^verbatim>\<open>if query:\<close> tests it.\<close>

fun truthy :: "json \<Rightarrow> bool" where
  "truthy JNull = False"
| "truthy (JBool b) = b"
| "truthy (JNum n) = (n \<noteq> 0)"
| "truthy (JStr s) = (s \<noteq> [])"
| "truthy (JArr xs) = (xs \<noteq> [])"
| "truthy (JObj kvs) = (kvs \<noteq> [])"

text \<open>\<^verbatim>\<open>d.get(k, default)\<close> on a dict held as its item list.\<close>

definition dict_get :: "(string \<times> 'v) list \<Rightarrow> string \<Rightarrow> 'v \<Rightarrow> 'v" where
  "dict_get d k dflt = (case map_of d k of Some v \<Rightarrow> v | None \<Rightarrow> dflt)"

text \<open>\<^verbatim>\<open>xs[i]\<close> for \<open>i \<ge> 0\<close>: out of range raises.\<close>

definition py_index :: "'a list \<Rightarrow> nat \<Rightarrow> exn + 'a" where
  "py_index xs i = (if i < length xs then Inr (xs ! i) else Inl (IndexError ''list index out of range''))"

text \<open>\<^verbatim>\<open>xs[:n]\<close>: a negative bound counts from the end.\<close>

definition py_slice_to :: "int \<Rightarrow> 'a list \<Rightarrow> 'a list" where
  "py_slice_to n xs = (if 0 \<le> n then take (nat n) xs else take (length xs - nat (- n)) xs)"

text \<open>\<^verbatim>\<open>str.isspace\<close> on one character (code points below 256).\<close>

definition py_isspace :: "char \<Rightarrow> bool" where
  "py_isspace c = (of_char c \<in> {9, 10, 11, 12, 13, 28, 29, 30, 31, 32, 133, 160 :: nat})"

definition strip :: "string \<Rightarrow> string" where
  "strip s = rev (dropWhile py_isspace (rev (dropWhile py_isspace s)))"

definition startswith :: "string \<Rightarrow> string \<Rightarrow> bool" where
  "startswith s p = (take (length p) s = p)"

text \<open>
  \<^verbatim>\<open>s.split(sep)\<close> for a non-empty separator: cut at every occurrence, left to right,
  without overlap. \<open>acc\<close> holds the current piece, reversed.
\<close>

function split_from :: "string \<Rightarrow> string \<Rightarrow> string \<Rightarrow> string list" where
  "split_from sep acc [] = [rev acc]"
| "split_from sep acc (c # cs) =
     (if sep \<noteq> [] \<and> startswith (c # cs) sep
      then rev acc # split_from sep [] (drop (length sep) (c # cs))
      else split_from sep (c # acc) cs)"
  by pat_completeness auto
termination
  by (relation "measure (\<lambda>(sep, acc, s). length s)") (auto simp: neq_Nil_conv)

definition split :: "string \<Rightarrow> string \<Rightarrow> string list" where
  "split s sep = split_from sep [] s"

section \<open>Generation calls\<close>

text \<open>
  A generation response is a sequence of messages; a message may have a content list, a
  block may have a text. The three receive loops of the source concatenate the texts.
\<close>

datatype block = TextBlock string | OtherBlock

datatype message = Message "block list" | NoContent

fun block_text :: "block \<Rightarrow> string" where
  "block_text (TextBlock t) = t"
| "block_text OtherBlock = []"

fun message_text :: "message \<Rightarrow> string" where
  "message_text (Message bs) = concat (map block_text bs)"
| "message_text NoContent = []"

definition collect_text :: "message list \<Rightarrow> string" where
  "collect_text msgs = concat (map message_text msgs)"

section \<open>Query refinement\<close>

definition fence_json :: string where
  "fence_json = [CHR 0x60, CHR 0x60, CHR 0x60] @ ''json''"

definition fence :: string where
  "fence = [CHR 0x60, CHR 0x60, CHR 0x60]"

text \<open>Lines 207-211: strip, then unwrap a fenced block.\<close>

definition clean_response :: "string \<Rightarrow> exn + string" where
  "clean_response response_text =
     (let t = strip response_text in
      if startswith t fence_json then
        (case py_index (split t fence_json) 1 of
           Inl e \<Rightarrow> Inl e
         | Inr a \<Rightarrow> (case py_index (split a fence) 0 of
                       Inl e \<Rightarrow> Inl e
                     | Inr b \<Rightarrow> Inr (strip b)))
      else if startswith t fence then
        (case py_index (split t fence) 1 of
           Inl e \<Rightarrow> Inl e
         | Inr a \<Rightarrow> (case py_index (split a fence) 0 of
                       Inl e \<Rightarrow> Inl e
                     | Inr b \<Rightarrow> Inr (strip b)))
      else Inr t)"

text \<open>\<^verbatim>\<open>refined['primary']\<close> as the three log lines 215-217 evaluate it.\<close>

fun subscript :: "json \<Rightarrow> string \<Rightarrow> exn + json" where
  "subscript (JObj kvs) k = (case map_of kvs k of Some v \<Rightarrow> Inr v | None \<Rightarrow> Inl (KeyError k))"
| "subscript (JArr xs) k = Inl (TypeError ''list indices must be integers or slices, not str'')"
| "subscript (JStr s) k = Inl (TypeError ''string indices must be integers'')"
| "subscript v k = Inl (TypeError ''object is not subscriptable'')"

text \<open>
  The body of the \<^verbatim>\<open>try\<close> of lines 205-219; \<open>loads\<close> is \<^verbatim>\<open>json.loads\<close>.
  A value that passed the three subscripts is an object, so the last case only names
  its items.
\<close>

definition parse_refined :: "(string \<Rightarrow> exn + json) \<Rightarrow> string \<Rightarrow> exn + (string \<times> json) list" where
  "parse_refined loads response_text =
     (case clean_response response_text of
        Inl e \<Rightarrow> Inl e
      | Inr cleaned \<Rightarrow>
     (case loads cleaned of
        Inl e \<Rightarrow> Inl e
      | Inr refined \<Rightarrow>
     (case subscript refined ''primary'' of
        Inl e \<Rightarrow> Inl e
      | Inr _ \<Rightarrow>
     (case subscript refined ''orthogonal_1'' of
        Inl e \<Rightarrow> Inl e
      | Inr _ \<Rightarrow>
     (case subscript refined ''orthogonal_2'' of
        Inl e \<Rightarrow> Inl e
      | Inr _ \<Rightarrow>
     (case refined of
        JObj kvs \<Rightarrow> Inr kvs
      | _ \<Rightarrow> Inl (TypeError ''object is not subscriptable'')))))))"

text \<open>The dict of lines 223-233.\<close>

definition fallback_queries :: "string \<Rightarrow> (string \<times> json) list" where
  "fallback_queries user_query =
     [(''original'', JStr user_query),
      (''primary'', JStr user_query),
      (''orthogonal_1'', JStr (user_query @ '' latest research'')),
      (''orthogonal_2'', JStr (user_query @ '' expert analysis'')),
      (''reasoning'', JObj
         [(''primary'', JStr ''Using original query''),
          (''orthogonal_1'', JStr ''Latest research angle''),
          (''orthogonal_2'', JStr ''Expert analysis angle'')])]"

text \<open>
  \<^verbatim>\<open>_refine_queries\<close>: \<open>sdk\<close> is the outcome of the generation call for the user query
  (made outside the \<^verbatim>\<open>try\<close>); only \<^verbatim>\<open>json.JSONDecodeError\<close> is handled.
\<close>

definition refine_queries ::
  "(string \<Rightarrow> exn + json) \<Rightarrow> (string \<Rightarrow> exn + message list) \<Rightarrow> string \<Rightarrow> exn + (string \<times> json) list" where
  "refine_queries loads sdk user_query =
     (case sdk user_query of
        Inl e \<Rightarrow> Inl e
      | Inr msgs \<Rightarrow>
          (case parse_refined loads (collect_text msgs) of
             Inl (JSONDecodeError m) \<Rightarrow> Inr (fallback_queries user_query)
           | Inl e \<Rightarrow> Inl e
           | Inr refined \<Rightarrow> Inr refined))"

section \<open>Search client\<close>

text \<open>
  One organic search hit, as the provider returns it: an object whose \<^verbatim>\<open>link\<close>,
  \<^verbatim>\<open>title\<close> and \<^verbatim>\<open>snippet\<close>, when present, are strings.
\<close>

record hit =
  link :: "string option"
  hit_title :: "string option"
  hit_snippet :: "string option"

text \<open>
  What \<^verbatim>\<open>response.json()\<close> returns: an object with an optional \<^verbatim>\<open>organic\<close> list
  and optional \<^verbatim>\<open>searchParameters\<close>, or some other JSON value.
\<close>

datatype payload =
    Payload "hit list option" "json option"
  | NonObject json

record response =
  status_code :: nat
  reason :: string
  response_url :: string
  json_result :: "exn + payload"

text \<open>A natural number in decimal, as an f-string prints it.\<close>

function str_nat :: "nat \<Rightarrow> string" where
  "str_nat n = (if n < 10 then [''0123456789'' ! n] else str_nat (n div 10) @ [''0123456789'' ! (n mod 10)])"
  by pat_completeness auto
termination
  by (relation "measure id") auto

declare str_nat.simps [simp del]

text \<open>
  \<^verbatim>\<open>response.raise_for_status()\<close> of the requests library: a 4xx status raises
  \<^verbatim>\<open>HTTPError\<close> with the message \<^verbatim>\<open><status> Client Error: <reason> for url: <url>\<close>,
  a 5xx status with \<^verbatim>\<open>Server Error\<close> in its place; no other status raises.
\<close>

definition raise_for_status :: "response \<Rightarrow> exn + unit" where
  "raise_for_status r =
     (if 400 \<le> status_code r \<and> status_code r < 500 then
        Inl (HTTPError (str_nat (status_code r) @ '' Client Error: '' @ reason r
                          @ '' for url: '' @ response_url r))
      else if 500 \<le> status_code r \<and> status_code r < 600 then
        Inl (HTTPError (str_nat (status_code r) @ '' Server Error: '' @ reason r
                          @ '' for url: '' @ response_url r))
      else Inr ())"

text \<open>The dict \<^verbatim>\<open>serper_search\<close> returns; absent keys are \<open>None\<close>.\<close>

record search_results =
  sr_query :: json
  sr_error :: "string option"
  sr_num_results :: "nat option"
  sr_results :: "hit list"
  sr_search_metadata :: "json option"

text \<open>
  The body of the \<^verbatim>\<open>try\<close> of lines 77-91. \<open>post\<close> is the outcome of
  \<^verbatim>\<open>requests.post\<close> for the query (\<open>Inl\<close>: a transport error).
\<close>

definition try_search :: "(json \<Rightarrow> exn + response) \<Rightarrow> json \<Rightarrow> exn + search_results" where
  "try_search post q =
     (case post q of
        Inl e \<Rightarrow> Inl e
      | Inr r \<Rightarrow>
     (case raise_for_status r of
        Inl e \<Rightarrow> Inl e
      | Inr _ \<Rightarrow>
     (case json_result r of
        Inl e \<Rightarrow> Inl e
      | Inr (NonObject v) \<Rightarrow> Inl (AttributeError ''object has no attribute get'')
      | Inr (Payload org params) \<Rightarrow>
          (let organic_results = (case org of Some hs \<Rightarrow> hs | None \<Rightarrow> []) in
           Inr \<lparr>sr_query = q,
                sr_error = None,
                sr_num_results = Some (length organic_results),
                sr_results = organic_results,
                sr_search_metadata = Some (case params of Some p \<Rightarrow> p | None \<Rightarrow> JObj [])\<rparr>))))"

definition serper_search :: "(json \<Rightarrow> exn + response) \<Rightarrow> json \<Rightarrow> search_results" where
  "serper_search post q =
     (case try_search post q of
        Inr res \<Rightarrow> res
      | Inl e \<Rightarrow>
          \<lparr>sr_query = q,
           sr_error = Some (str_exn e),
           sr_num_results = None,
           sr_results = [],
           sr_search_metadata = None\<rparr>)"

section \<open>Content fetch\<close>

text \<open>\<^verbatim>\<open>_fetch_url_content\<close>: \<open>sdk\<close> is the outcome of the generation call for the URL.\<close>

definition fetch_url_content :: "(string \<Rightarrow> exn + message list) \<Rightarrow> string \<Rightarrow> string option" where
  "fetch_url_content sdk url =
     (case sdk url of
        Inl e \<Rightarrow> None
      | Inr msgs \<Rightarrow> (let content = collect_text msgs in if content \<noteq> [] then Some content else None))"

section \<open>Research branch\<close>

record article =
  position :: nat
  title :: string
  url :: string
  snippet :: string
  content_preview :: string
  content_length :: nat
  scraped :: bool

text \<open>A branch report; absent keys are \<open>None\<close>.\<close>

record report =
  query_type :: string
  query :: "json option"
  error :: "string option"
  num_articles :: "nat option"
  articles :: "article list"
  search_metadata :: "json option"

text \<open>The network calls a branch makes, in the order it makes them.\<close>

datatype event = SearchCall json | FetchCall string

text \<open>Lines 327-335, for a hit with a non-empty URL and the fetch result \<open>content\<close>.\<close>

definition article_data :: "nat \<Rightarrow> string \<Rightarrow> string \<Rightarrow> string \<Rightarrow> string option \<Rightarrow> article" where
  "article_data idx t u s content =
     \<lparr>position = idx,
      title = t,
      url = u,
      snippet = s,
      content_preview = (case content of Some c \<Rightarrow> take 500 c @ ''...'' | None \<Rightarrow> s),
      content_length = (case content of Some c \<Rightarrow> length c | None \<Rightarrow> 0),
      scraped = (content \<noteq> None)\<rparr>"

text \<open>
  The loop of lines 316-338 over \<^verbatim>\<open>enumerate(results_to_scrape, 1)\<close>, from index
  \<open>idx\<close> on: the articles appended and the fetches made.
\<close>

fun scrape :: "(string \<Rightarrow> exn + message list) \<Rightarrow> nat \<Rightarrow> hit list \<Rightarrow> article list \<times> event list" where
  "scrape sdk idx [] = ([], [])"
| "scrape sdk idx (h # hs) =
     (let u = (case link h of Some l \<Rightarrow> l | None \<Rightarrow> []);
          t = (case hit_title h of Some x \<Rightarrow> x | None \<Rightarrow> ''No title'');
          s = (case hit_snippet h of Some x \<Rightarrow> x | None \<Rightarrow> [])
      in if u = [] then scrape sdk (Suc idx) hs
         else (let content = fetch_url_content sdk u;
                   (arts, evs) = scrape sdk (Suc idx) hs
               in (article_data idx t u s content # arts, FetchCall u # evs)))"

text \<open>\<^verbatim>\<open>_run_research_subagent\<close>, with \<^verbatim>\<open>self.num_results\<close> as a parameter.\<close>

definition run_research_subagent ::
  "(json \<Rightarrow> exn + response) \<Rightarrow> (string \<Rightarrow> exn + message list) \<Rightarrow> int \<Rightarrow> json \<Rightarrow> string
     \<Rightarrow> report \<times> event list" where
  "run_research_subagent post sdk num_results q qt =
     (let sr = serper_search post q in
      if sr_error sr \<noteq> None \<or> sr_results sr = [] then
        (\<lparr>query_type = qt,
          query = Some q,
          error = Some (case sr_error sr of Some e \<Rightarrow> e | None \<Rightarrow> ''No results found''),
          num_articles = None,
          articles = [],
          search_metadata = None\<rparr>,
         [SearchCall q])
      else
        (let results_to_scrape = py_slice_to num_results (sr_results sr);
             (arts, evs) = scrape sdk 1 results_to_scrape
         in (\<lparr>query_type = qt,
              query = Some q,
              error = None,
              num_articles = Some (length arts),
              articles = arts,
              search_metadata = Some (case sr_search_metadata sr of Some m \<Rightarrow> m | None \<Rightarrow> JObj [])\<rparr>,
             SearchCall q # evs)))"

section \<open>Fan-out\<close>

definition query_types :: "string list" where
  "query_types = [''primary'', ''orthogonal_1'', ''orthogonal_2'']"

text \<open>Lines 265-269: the (query, query_type) pairs for which a task is created.\<close>

fun make_tasks :: "(string \<times> json) list \<Rightarrow> string list \<Rightarrow> (json \<times> string) list" where
  "make_tasks refined [] = []"
| "make_tasks refined (qt # qts) =
     (let q = dict_get refined qt (JStr []) in
      if truthy q then (q, qt) # make_tasks refined qts else make_tasks refined qts)"

text \<open>
  The outcome of one task under \<^verbatim>\<open>asyncio.gather(..., return_exceptions=True)\<close>:
  \<open>fault qt\<close> is the unexpected fault, if any, that the task of branch \<open>qt\<close> raises;
  otherwise the task returns the branch's report.
\<close>

definition run_task ::
  "(string \<Rightarrow> exn option) \<Rightarrow> (json \<Rightarrow> exn + response) \<Rightarrow> (string \<Rightarrow> exn + message list) \<Rightarrow> int
     \<Rightarrow> json \<times> string \<Rightarrow> exn + report" where
  "run_task fault post sdk num_results task =
     (case fault (snd task) of
        Some e \<Rightarrow> Inl e
      | None \<Rightarrow> Inr (fst (run_research_subagent post sdk num_results (fst task) (snd task))))"

text \<open>Lines 280-284: the report that stands for a task that raised \<open>ex\<close>.\<close>

definition fault_report :: "string \<Rightarrow> exn \<Rightarrow> report" where
  "fault_report qt ex =
     \<lparr>query_type = qt,
      query = None,
      error = Some (str_exn ex),
      num_articles = None,
      articles = [],
      search_metadata = None\<rparr>"

text \<open>Lines 276-286: \<open>i\<close> is the index \<^verbatim>\<open>enumerate(results)\<close> has reached.\<close>

fun process_results :: "nat \<Rightarrow> (exn + report) list \<Rightarrow> exn + report list" where
  "process_results i [] = Inr []"
| "process_results i (Inr rep # rs) =
     (case process_results (Suc i) rs of Inl e \<Rightarrow> Inl e | Inr reps \<Rightarrow> Inr (rep # reps))"
| "process_results i (Inl ex # rs) =
     (case py_index query_types i of
        Inl e \<Rightarrow> Inl e
      | Inr qt \<Rightarrow>
          (case process_results (Suc i) rs of
             Inl e \<Rightarrow> Inl e
           | Inr reps \<Rightarrow> Inr (fault_report qt ex # reps)))"

text \<open>
  \<^verbatim>\<open>_execute_parallel_research\<close>: \<^verbatim>\<open>gather\<close> returns the outcomes in the order of
  the tasks it was given, whatever the order in which they complete.
\<close>

definition execute_parallel_research ::
  "(string \<Rightarrow> exn option) \<Rightarrow> (json \<Rightarrow> exn + response) \<Rightarrow> (string \<Rightarrow> exn + message list) \<Rightarrow> int
     \<Rightarrow> (string \<times> json) list \<Rightarrow> exn + report list" where
  "execute_parallel_research fault post sdk num_results refined =
     process_results 0 (map (run_task fault post sdk num_results) (make_tasks refined query_types))"

section \<open>Report synthesis and the orchestrator\<close>

record article_summary =
  as_title :: string
  as_url :: string
  as_snippet :: string
  as_content_preview :: string

record branch_summary =
  bs_query_type :: string
  bs_query :: "json option"
  bs_num_articles :: nat
  bs_articles :: "article_summary list"

record research_summary =
  original_query :: string
  refined_queries :: "(string \<times> json) list"
  results_summary :: "branch_summary list"

text \<open>Lines 395-408, for one branch report.\<close>

definition summarize :: "report \<Rightarrow> branch_summary" where
  "summarize r =
     \<lparr>bs_query_type = query_type r,
      bs_query = query r,
      bs_num_articles = (case num_articles r of Some n \<Rightarrow> n | None \<Rightarrow> 0),
      bs_articles =
        map (\<lambda>a. \<lparr>as_title = title a,
                  as_url = url a,
                  as_snippet = snippet a,
                  as_content_preview = take 300 (content_preview a)\<rparr>)
            (take 5 (articles r))\<rparr>"

text \<open>Lines 388-409: the aggregate the report prompt is built from.\<close>

definition build_summary :: "string \<Rightarrow> (string \<times> json) list \<Rightarrow> report list \<Rightarrow> research_summary" where
  "build_summary oq refined research_results =
     \<lparr>original_query = oq,
      refined_queries = refined,
      results_summary = map summarize research_results\<rparr>"

text \<open>
  \<^verbatim>\<open>_generate_report\<close>: \<open>sdk\<close> is the outcome of the generation call for the aggregate;
  nothing around it catches a fault.
\<close>

definition generate_report ::
  "(research_summary \<Rightarrow> exn + message list) \<Rightarrow> string \<Rightarrow> (string \<times> json) list \<Rightarrow> report list
     \<Rightarrow> exn + string" where
  "generate_report sdk oq refined research_results =
     (case sdk (build_summary oq refined research_results) of
        Inl e \<Rightarrow> Inl e
      | Inr msgs \<Rightarrow> Inr (collect_text msgs))"

text \<open>Everything a run takes from outside.\<close>

record world =
  loads :: "string \<Rightarrow> exn + json"
  sdk_refine :: "string \<Rightarrow> exn + message list"
  http_post :: "json \<Rightarrow> exn + response"
  sdk_fetch :: "string \<Rightarrow> exn + message list"
  task_fault :: "string \<Rightarrow> exn option"
  sdk_report :: "research_summary \<Rightarrow> exn + message list"
  num_results_cfg :: int
  session_path :: string

record research_result =
  session_dir :: string
  queries :: "(string \<times> json) list"
  results :: "report list"
  final_report :: string

text \<open>\<^verbatim>\<open>research_with_orchestrator\<close>, lines 100-155.\<close>

definition research_with_orchestrator :: "world \<Rightarrow> string \<Rightarrow> exn + research_result" where
  "research_with_orchestrator w user_query =
     (case refine_queries (loads w) (sdk_refine w) user_query of
        Inl e \<Rightarrow> Inl e
      | Inr refined \<Rightarrow>
     (case execute_parallel_research (task_fault w) (http_post w) (sdk_fetch w) (num_results_cfg w) refined of
        Inl e \<Rightarrow> Inl e
      | Inr research_results \<Rightarrow>
     (case generate_report (sdk_report w) user_query refined research_results of
        Inl e \<Rightarrow> Inl e
      | Inr rep \<Rightarrow>
          Inr \<lparr>session_dir = session_path w,
               queries = refined,
               results = research_results,
               final_report = rep\<rparr>)))"

section \<open>Closed forms and sample inputs\<close>

text \<open>
  The loop of a branch in closed form: \<open>ranked idx hs\<close> pairs every hit that has a
  non-empty URL with its 1-based rank, \<open>emit\<close> builds the article of such a pair.
  The sample provider answers every query but \<^verbatim>\<open>down\<close> with three hits, the second
  without a link; the sample fetch succeeds for the first URL only.
\<close>

definition hit_url :: "hit \<Rightarrow> string" where
  "hit_url h = (case link h of Some l \<Rightarrow> l | None \<Rightarrow> [])"

definition emit :: "(string \<Rightarrow> exn + message list) \<Rightarrow> nat \<times> hit \<Rightarrow> article" where
  "emit sdk ih =
     article_data (fst ih)
       (case hit_title (snd ih) of Some x \<Rightarrow> x | None \<Rightarrow> ''No title'')
       (hit_url (snd ih))
       (case hit_snippet (snd ih) of Some x \<Rightarrow> x | None \<Rightarrow> [])
       (fetch_url_content sdk (hit_url (snd ih)))"

definition ranked :: "nat \<Rightarrow> hit list \<Rightarrow> (nat \<times> hit) list" where
  "ranked idx hs = filter (\<lambda>ih. hit_url (snd ih) \<noteq> []) (zip [idx ..< idx + length hs] hs)"

definition sample_hits :: "hit list" where
  "sample_hits =
     [\<lparr>link = Some ''http://a'', hit_title = Some ''A'', hit_snippet = Some ''sa''\<rparr>,
      \<lparr>link = None, hit_title = Some ''B'', hit_snippet = Some ''sb''\<rparr>,
      \<lparr>link = Some ''http://c'', hit_title = None, hit_snippet = Some ''sc''\<rparr>]"

definition sample_post :: "json \<Rightarrow> exn + response" where
  "sample_post q =
     (if q = JStr ''down'' then Inl (Exception ''timed out'')
      else Inr \<lparr>status_code = 200, reason = ''OK'', response_url = ''https://google.serper.dev/search'',
                json_result = Inr (Payload (Some sample_hits) None)\<rparr>)"

definition sample_sdk :: "string \<Rightarrow> exn + message list" where
  "sample_sdk u = (if u = ''http://a'' then Inr [Message [TextBlock ''abc'']] else Inl (Exception ''blocked''))"



text \<open>A report with six articles, each with a preview of 503 characters.\<close>

definition long_article :: article where
  "long_article =
     \<lparr>position = 1, title = ''T'', url = ''http://t'', snippet = ''s'',
      content_preview = replicate 500 CHR ''x'' @ ''...'', content_length = 900, scraped = True\<rparr>"

definition big_report :: report where
  "big_report =
     \<lparr>query_type = ''primary'', query = Some (JStr ''q''), error = None, num_articles = Some 6,
      articles = replicate 6 long_article, search_metadata = Some (JObj [])\<rparr>"

text \<open>A dict whose \<open>primary\<close> entry is the empty string.\<close>

definition empty_primary :: "(string \<times> json) list" where
  "empty_primary =
     [(''original'', JStr ''q''), (''primary'', JStr []),
      (''orthogonal_1'', JStr ''a''), (''orthogonal_2'', JStr ''b'')]"

text \<open>
  A generation output that is a JSON object without the key \<^verbatim>\<open>primary\<close>, a
  decoder that decodes this text and rejects every other one, and a generation call that
  answers in prose.
\<close>

definition missing_primary_text :: string where
  \<open>missing_primary_text = ''{"original": "q", "orthogonal_1": "a", "orthogonal_2": "b"}''\<close>

definition sample_loads :: "string \<Rightarrow> exn + json" where
  "sample_loads s =
     (if s = missing_primary_text
      then Inr (JObj [(''original'', JStr ''q''), (''orthogonal_1'', JStr ''a''), (''orthogonal_2'', JStr ''b'')])
      else Inl (JSONDecodeError ''Expecting value''))"

definition prose_sdk :: "string \<Rightarrow> exn + message list" where
  "prose_sdk user_query = Inr [Message [TextBlock ''Here are some ideas'']]"

text \<open>
  A run in which the query refinement falls back, the search of the primary query times
  out and the two other searches succeed.
\<close>

definition down_post :: "json \<Rightarrow> exn + response" where
  "down_post q = (if q = JStr ''q'' then Inl (Exception ''timed out'') else sample_post q)"

definition sample_world :: world where
  "sample_world =
     \<lparr>loads = sample_loads,
      sdk_refine = prose_sdk,
      http_post = down_post,
      sdk_fetch = sample_sdk,
      task_fault = (\<lambda>qt. None),
      sdk_report = (\<lambda>agg. Inr [Message [TextBlock ''# Research Report: q'']]),
      num_results_cfg = 3,
      session_path = ''research_sessions/2025-01-01_00-00-00''\<rparr>"

section \<open>The research branch: closed form of the loop\<close>

lemma ranked_Nil: "ranked idx [] = []"
  by (simp add: ranked_def)

lemma ranked_Cons:
  "ranked idx (h # hs) = (if hit_url h \<noteq> [] then (idx, h) # ranked (Suc idx) hs else ranked (Suc idx) hs)"
proof -
  have "[idx ..< idx + length (h # hs)] = idx # [Suc idx ..< Suc idx + length hs]"
    by (subst upt_rec) simp
  then show ?thesis by (simp add: ranked_def)
qed

lemma scrape_articles: "fst (scrape sdk idx hs) = map (emit sdk) (ranked idx hs)"
  by (induction hs arbitrary: idx)
     (simp_all add: ranked_Nil ranked_Cons hit_url_def emit_def Let_def case_prod_beta)

lemma scrape_events: "snd (scrape sdk idx hs) = map FetchCall (map url (fst (scrape sdk idx hs)))"
  by (induction hs arbitrary: idx)
     (simp_all add: Let_def article_data_def case_prod_beta)

lemma position_emit: "position (emit sdk ih) = fst ih"
  by (simp add: emit_def article_data_def)

lemma url_emit: "url (emit sdk ih) = hit_url (snd ih)"
  by (simp add: emit_def article_data_def)

lemma ranked_fst: "map fst (ranked idx hs) = filter (\<lambda>i. hit_url (hs ! (i - idx)) \<noteq> []) [idx ..< idx + length hs]"
proof (induction hs arbitrary: idx)
  case Nil
  then show ?case by (simp add: ranked_Nil)
next
  case (Cons h hs)
  have upt: "[idx ..< idx + length (h # hs)] = idx # [Suc idx ..< Suc idx + length hs]"
    by (subst upt_rec) simp
  have "filter (\<lambda>i. hit_url ((h # hs) ! (i - idx)) \<noteq> []) [Suc idx ..< Suc idx + length hs]
        = filter (\<lambda>i. hit_url (hs ! (i - Suc idx)) \<noteq> []) [Suc idx ..< Suc idx + length hs]"
    by (rule filter_cong) (auto simp: nth_Cons' Suc_diff_le)
  with Cons.IH [of "Suc idx"] upt show ?case
    by (simp add: ranked_Cons)
qed

lemma ranked_sorted: "sorted_wrt (<) (map fst (ranked idx hs))"
  unfolding ranked_fst by (rule sorted_wrt_filter) (simp add: sorted_wrt_upt)

lemma ranked_length: "length (ranked idx hs) \<le> length hs"
proof -
  have "length (ranked idx hs) \<le> length (zip [idx ..< idx + length hs] hs)"
    unfolding ranked_def by (rule length_filter_le)
  then show ?thesis by simp
qed

lemma ranked_mem:
  assumes "ih \<in> set (ranked idx hs)"
  shows "idx \<le> fst ih \<and> fst ih < idx + length hs \<and> snd ih = hs ! (fst ih - idx) \<and> hit_url (snd ih) \<noteq> []"
proof -
  from assms have z: "ih \<in> set (zip [idx ..< idx + length hs] hs)" and u: "hit_url (snd ih) \<noteq> []"
    by (simp_all add: ranked_def)
  from z obtain k where k: "k < length hs" "ih = ([idx ..< idx + length hs] ! k, hs ! k)"
    by (auto simp: set_zip)
  then show ?thesis using u by simp
qed

lemma py_slice_to_length: "0 \<le> n \<Longrightarrow> int (length (py_slice_to n xs)) \<le> n"
  by (simp add: py_slice_to_def)

lemma py_slice_to_length_le: "length (py_slice_to n xs) \<le> length xs"
  by (simp add: py_slice_to_def)

lemma py_slice_to_nth: "i < length (py_slice_to n xs) \<Longrightarrow> py_slice_to n xs ! i = xs ! i"
  by (simp add: py_slice_to_def split: if_splits)

lemma branch_failed:
  assumes "sr_error (serper_search post q) \<noteq> None \<or> sr_results (serper_search post q) = []"
  shows "run_research_subagent post sdk n q qt =
           (\<lparr>query_type = qt, query = Some q,
             error = Some (case sr_error (serper_search post q) of Some e \<Rightarrow> e | None \<Rightarrow> ''No results found''),
             num_articles = None, articles = [], search_metadata = None\<rparr>,
            [SearchCall q])"
  using assms by (simp add: run_research_subagent_def Let_def)

lemma branch_succeeded:
  assumes "sr_error (serper_search post q) = None" and "sr_results (serper_search post q) \<noteq> []"
  shows "run_research_subagent post sdk n q qt =
           (\<lparr>query_type = qt, query = Some q, error = None,
             num_articles = Some (length (ranked 1 (py_slice_to n (sr_results (serper_search post q))))),
             articles = map (emit sdk) (ranked 1 (py_slice_to n (sr_results (serper_search post q)))),
             search_metadata = Some (case sr_search_metadata (serper_search post q) of Some m \<Rightarrow> m | None \<Rightarrow> JObj [])\<rparr>,
            SearchCall q # map FetchCall (map url (map (emit sdk) (ranked 1 (py_slice_to n (sr_results (serper_search post q)))))))"
proof -
  let ?top = "py_slice_to n (sr_results (serper_search post q))"
  have "scrape sdk 1 ?top = (map (emit sdk) (ranked 1 ?top), map FetchCall (map url (map (emit sdk) (ranked 1 ?top))))"
    using scrape_articles [of sdk 1 ?top] scrape_events [of sdk 1 ?top]
    by (simp add: prod_eq_iff)
  with assms show ?thesis
    by (simp add: run_research_subagent_def Let_def)
qed

lemma branch_articles:
  "articles (fst (run_research_subagent post sdk n q qt)) =
     map (emit sdk) (ranked 1 (py_slice_to n (sr_results (serper_search post q))))"
proof (cases "sr_error (serper_search post q) \<noteq> None \<or> sr_results (serper_search post q) = []")
  case True
  have "sr_results (serper_search post q) = []"
  proof (cases "sr_results (serper_search post q) = []")
    case True then show ?thesis .
  next
    case False
    with True have "sr_error (serper_search post q) \<noteq> None" by simp
    then show ?thesis
      by (auto simp: serper_search_def try_search_def Let_def split: sum.splits payload.splits)
  qed
  then show ?thesis using branch_failed [OF True, of sdk n qt]
    by (simp add: py_slice_to_def ranked_Nil)
next
  case False
  then show ?thesis using branch_succeeded [of post q sdk n qt] by simp
qed

lemma branch_query_type: "query_type (fst (run_research_subagent post sdk n q qt)) = qt"
  by (simp add: run_research_subagent_def Let_def case_prod_beta)

lemma branch_events:
  "snd (run_research_subagent post sdk n q qt) =
     SearchCall q # map FetchCall (map url (articles (fst (run_research_subagent post sdk n q qt))))"
proof (cases "sr_error (serper_search post q) \<noteq> None \<or> sr_results (serper_search post q) = []")
  case True
  then show ?thesis using branch_failed [OF True, of sdk n qt] by simp
next
  case False
  then show ?thesis using branch_succeeded [of post q sdk n qt] by simp
qed


lemma emit_fields:
  "position (emit sdk ih) = fst ih"
  "url (emit sdk ih) = hit_url (snd ih)"
  "title (emit sdk ih) = (case hit_title (snd ih) of Some x \<Rightarrow> x | None \<Rightarrow> ''No title'')"
  "snippet (emit sdk ih) = (case hit_snippet (snd ih) of Some x \<Rightarrow> x | None \<Rightarrow> [])"
  by (simp_all add: emit_def article_data_def)

lemma map_position_emit: "map position (map (emit sdk) xs) = map fst xs"
  by (simp add: emit_fields comp_def)

text \<open>
  C6: for every branch execution with a non-negative limit, the report carries the input
  tag as its \<open>query_type\<close>, holds at most \<open>num_results\<close> articles, and the articles
  are in provider rank order: positions strictly increase, each position is the 1-based
  rank of the hit the article was built from (within the first \<open>num_results\<close> hits), and
  the fetches were made one after the other in that order, after a single search call.
\<close>

theorem branch_tag_limit_rank_order:
  assumes "0 \<le> num_results"
    and "rep = fst (run_research_subagent post sdk num_results q qt)"
    and "hits = sr_results (serper_search post q)"
  shows "query_type rep = qt
    \<and> int (length (articles rep)) \<le> num_results
    \<and> sorted_wrt (<) (map position (articles rep))
    \<and> (\<forall>a \<in> set (articles rep).
          1 \<le> position a \<and> int (position a) \<le> num_results \<and> position a \<le> length hits
          \<and> url a = hit_url (hits ! (position a - 1))
          \<and> title a = (case hit_title (hits ! (position a - 1)) of Some x \<Rightarrow> x | None \<Rightarrow> ''No title'')
          \<and> snippet a = (case hit_snippet (hits ! (position a - 1)) of Some x \<Rightarrow> x | None \<Rightarrow> []))
    \<and> snd (run_research_subagent post sdk num_results q qt)
          = SearchCall q # map FetchCall (map url (articles rep))"
proof -
  let ?top = "py_slice_to num_results hits"
  have arts: "articles rep = map (emit sdk) (ranked 1 ?top)"
    using assms(2,3) by (simp add: branch_articles)
  have top_n: "int (length ?top) \<le> num_results"
    using assms(1) by (rule py_slice_to_length)
  have top_le: "length ?top \<le> length hits"
    by (rule py_slice_to_length_le)
  have len: "length (articles rep) \<le> length ?top"
    using ranked_length [of 1 ?top] by (simp add: arts)
  have c1: "query_type rep = qt"
    using assms(2) by (simp add: branch_query_type)
  have c2: "int (length (articles rep)) \<le> num_results"
    using len top_n by linarith
  have c3: "sorted_wrt (<) (map position (articles rep))"
    by (simp only: arts map_position_emit ranked_sorted)
  have c4: "1 \<le> position a \<and> int (position a) \<le> num_results \<and> position a \<le> length hits
          \<and> url a = hit_url (hits ! (position a - 1))
          \<and> title a = (case hit_title (hits ! (position a - 1)) of Some x \<Rightarrow> x | None \<Rightarrow> ''No title'')
          \<and> snippet a = (case hit_snippet (hits ! (position a - 1)) of Some x \<Rightarrow> x | None \<Rightarrow> [])"
    if "a \<in> set (articles rep)" for a
  proof -
    from that arts obtain ih where ih: "ih \<in> set (ranked 1 ?top)" and a: "a = emit sdk ih"
      by auto
    from ranked_mem [OF ih] have lo: "1 \<le> fst ih" and hi: "fst ih < 1 + length ?top"
      and src: "snd ih = ?top ! (fst ih - 1)"
      by simp_all
    from lo hi have "fst ih - 1 < length ?top" by simp
    then have "?top ! (fst ih - 1) = hits ! (fst ih - 1)"
      by (rule py_slice_to_nth)
    with src have src': "snd ih = hits ! (fst ih - 1)" by simp
    from hi top_n have "int (fst ih) \<le> num_results" by linarith
    moreover from hi top_le have "fst ih \<le> length hits" by linarith
    ultimately show ?thesis using lo src' by (simp add: a emit_fields)
  qed
  have c5: "snd (run_research_subagent post sdk num_results q qt)
          = SearchCall q # map FetchCall (map url (articles rep))"
    using assms(2) by (simp add: branch_events)
  from c1 c2 c3 c4 c5 show ?thesis by blast
qed

lemma sample_search:
  "q \<noteq> JStr ''down'' \<Longrightarrow> serper_search sample_post q =
     \<lparr>sr_query = q, sr_error = None, sr_num_results = Some 3, sr_results = sample_hits,
      sr_search_metadata = Some (JObj [])\<rparr>"
  by (simp add: serper_search_def try_search_def sample_post_def raise_for_status_def sample_hits_def)

lemma sample_search_down:
  "serper_search sample_post (JStr ''down'') =
     \<lparr>sr_query = JStr ''down'', sr_error = Some ''timed out'', sr_num_results = None, sr_results = [],
      sr_search_metadata = None\<rparr>"
  by (simp add: serper_search_def try_search_def sample_post_def)

lemma sample_fetch:
  "fetch_url_content sample_sdk ''http://a'' = Some ''abc''"
  "fetch_url_content sample_sdk ''http://c'' = None"
  by (simp_all add: fetch_url_content_def sample_sdk_def collect_text_def)

lemma sample_branch:
  "run_research_subagent sample_post sample_sdk 3 (JStr ''q'') qt =
     (\<lparr>query_type = qt, query = Some (JStr ''q''), error = None, num_articles = Some 2,
       articles =
         [\<lparr>position = 1, title = ''A'', url = ''http://a'', snippet = ''sa'',
           content_preview = ''abc...'', content_length = 3, scraped = True\<rparr>,
          \<lparr>position = 3, title = ''No title'', url = ''http://c'', snippet = ''sc'',
           content_preview = ''sc'', content_length = 0, scraped = False\<rparr>],
       search_metadata = Some (JObj [])\<rparr>,
      [SearchCall (JStr ''q''), FetchCall ''http://a'', FetchCall ''http://c''])"
  by (simp add: run_research_subagent_def sample_search py_slice_to_def Let_def sample_hits_def
      sample_fetch article_data_def)

theorem branch_tag_limit_rank_order_witness:
  "(0::int) \<le> 3
   \<and> query_type (fst (run_research_subagent sample_post sample_sdk 3 (JStr ''q'') ''primary'')) = ''primary''
   \<and> int (length (articles (fst (run_research_subagent sample_post sample_sdk 3 (JStr ''q'') ''primary'')))) \<le> 3
   \<and> map position (articles (fst (run_research_subagent sample_post sample_sdk 3 (JStr ''q'') ''primary''))) = [1, 3]
   \<and> sorted_wrt (<) (map position (articles (fst (run_research_subagent sample_post sample_sdk 3 (JStr ''q'') ''primary''))))
   \<and> snd (run_research_subagent sample_post sample_sdk 3 (JStr ''q'') ''primary'')
        = [SearchCall (JStr ''q''), FetchCall ''http://a'', FetchCall ''http://c'']"
  using branch_tag_limit_rank_order [of 3 "fst (run_research_subagent sample_post sample_sdk 3 (JStr ''q'') ''primary'')"
      sample_post sample_sdk "JStr ''q''" "''primary''" "sr_results (serper_search sample_post (JStr ''q''))"]
  by (simp add: sample_branch)

section \<open>The fan-out: closed form\<close>

lemma ranked_count: "length (ranked idx hs) = length (filter (\<lambda>h. hit_url h \<noteq> []) hs)"
  by (induction hs arbitrary: idx) (simp_all add: ranked_Nil ranked_Cons)

lemma py_slice_to_min: "0 \<le> n \<Longrightarrow> length (py_slice_to n xs) = min (nat n) (length xs)"
  by (simp add: py_slice_to_def)

lemma make_tasks_filter:
  "make_tasks refined qts =
     map (\<lambda>qt. (dict_get refined qt (JStr []), qt))
         (filter (\<lambda>qt. truthy (dict_get refined qt (JStr []))) qts)"
  by (induction qts) (simp_all add: Let_def)

lemma make_tasks_length: "length (make_tasks refined query_types) \<le> 3"
proof -
  have "length (make_tasks refined query_types) \<le> length query_types"
    unfolding make_tasks_filter by simp
  then show ?thesis by (simp add: query_types_def)
qed

lemma process_results_closed:
  assumes "i + length rs \<le> length query_types"
  shows "process_results i rs =
           Inr (map (\<lambda>jr. case snd jr of Inl ex \<Rightarrow> fault_report (query_types ! fst jr) ex | Inr rep \<Rightarrow> rep)
                    (enumerate i rs))"
  using assms
  by (induction i rs rule: process_results.induct) (simp_all add: py_index_def)

lemma execute_closed:
  "execute_parallel_research fault post sdk n refined =
     Inr (map (\<lambda>jr. case snd jr of Inl ex \<Rightarrow> fault_report (query_types ! fst jr) ex | Inr rep \<Rightarrow> rep)
              (enumerate 0 (map (run_task fault post sdk n) (make_tasks refined query_types))))"
proof -
  have "0 + length (map (run_task fault post sdk n) (make_tasks refined query_types)) \<le> length query_types"
    using make_tasks_length [of refined] by (simp add: query_types_def)
  from process_results_closed [OF this] show ?thesis
    by (simp add: execute_parallel_research_def)
qed

lemma execute_nth:
  assumes "execute_parallel_research fault post sdk n refined = Inr reps"
  shows "length reps = length (make_tasks refined query_types)"
    and "j < length reps \<Longrightarrow>
           reps ! j = (case run_task fault post sdk n (make_tasks refined query_types ! j) of
                         Inl ex \<Rightarrow> fault_report (query_types ! j) ex
                       | Inr rep \<Rightarrow> rep)"
  using assms unfolding execute_closed by (auto simp: nth_enumerate_eq split: sum.splits)

lemma branch_num_articles:
  "num_articles (fst (run_research_subagent post sdk n q qt)) =
     (if sr_error (serper_search post q) \<noteq> None \<or> sr_results (serper_search post q) = [] then None
      else Some (length (articles (fst (run_research_subagent post sdk n q qt)))))"
proof (cases "sr_error (serper_search post q) \<noteq> None \<or> sr_results (serper_search post q) = []")
  case True
  then show ?thesis using branch_failed [OF True, of sdk n qt] by simp
next
  case False
  then show ?thesis using branch_succeeded [of post q sdk n qt] by simp
qed

text \<open>
  C10: a report of a successful branch execution has \<open>num_articles\<close> equal to the
  length of its articles list; a report of the search-failure path, and a report that the
  fan-out builds for a task that raised, has no \<open>num_articles\<close> at all, and the report
  summary defaults it to 0. So in every report the fan-out returns, \<open>num_articles\<close>,
  when present, is the length of \<open>articles\<close>.
\<close>

theorem num_articles_when_present:
  assumes "rep = fst (run_research_subagent post sdk n q qt)"
    and "sr = serper_search post q"
  shows "(sr_error sr = None \<and> sr_results sr \<noteq> [] \<longrightarrow> num_articles rep = Some (length (articles rep)))
    \<and> (sr_error sr \<noteq> None \<or> sr_results sr = [] \<longrightarrow>
          num_articles rep = None \<and> bs_num_articles (summarize rep) = 0)
    \<and> num_articles (fault_report qt ex) = None
    \<and> bs_num_articles (summarize (fault_report qt ex)) = 0
    \<and> (\<forall>reps. execute_parallel_research fault post sdk n refined = Inr reps \<longrightarrow>
          (\<forall>r \<in> set reps. \<forall>k. num_articles r = Some k \<longrightarrow> k = length (articles r)))"
proof -
  have a: "sr_error sr = None \<and> sr_results sr \<noteq> [] \<longrightarrow> num_articles rep = Some (length (articles rep))"
    using assms by (simp add: branch_num_articles)
  have b: "sr_error sr \<noteq> None \<or> sr_results sr = [] \<longrightarrow>
          num_articles rep = None \<and> bs_num_articles (summarize rep) = 0"
    using assms by (auto simp: branch_num_articles summarize_def)
  have c: "num_articles (fault_report qt ex) = None"
    by (simp add: fault_report_def)
  have d: "bs_num_articles (summarize (fault_report qt ex)) = 0"
    by (simp add: fault_report_def summarize_def)
  have e: "k = length (articles r)"
    if ex: "execute_parallel_research fault post sdk n refined = Inr reps"
      and r: "r \<in> set reps" and k: "num_articles r = Some k" for reps r k
  proof -
    from r obtain j where j: "j < length reps" "r = reps ! j"
      by (auto simp: in_set_conv_nth)
    let ?t = "make_tasks refined query_types ! j"
    from execute_nth(2) [OF ex j(1)] j(2)
    have rj: "r = (case run_task fault post sdk n ?t of
                     Inl ex \<Rightarrow> fault_report (query_types ! j) ex | Inr rep \<Rightarrow> rep)"
      by simp
    show ?thesis
    proof (cases "run_task fault post sdk n ?t")
      case (Inl e')
      with rj k show ?thesis by (simp add: fault_report_def)
    next
      case (Inr rep')
      then have "rep' = fst (run_research_subagent post sdk n (fst ?t) (snd ?t))"
        by (auto simp: run_task_def split: option.splits)
      with rj Inr k show ?thesis
        by (simp add: branch_num_articles split: if_splits)
    qed
  qed
  from a b c d e show ?thesis by blast
qed

theorem num_articles_when_present_witness:
  "num_articles (fst (run_research_subagent sample_post sample_sdk 3 (JStr ''q'') ''primary'')) = Some 2
   \<and> length (articles (fst (run_research_subagent sample_post sample_sdk 3 (JStr ''q'') ''primary''))) = 2
   \<and> num_articles (fst (run_research_subagent sample_post sample_sdk 3 (JStr ''down'') ''primary'')) = None
   \<and> num_articles (fault_report ''primary'' (Exception ''boom'')) = None"
  using num_articles_when_present [where rep = "fst (run_research_subagent sample_post sample_sdk 3 (JStr ''q'') ''primary'')"
      and post = sample_post and sdk = sample_sdk and n = 3 and q = "JStr ''q''" and qt = "''primary''"
      and sr = "serper_search sample_post (JStr ''q'')" and ex = "Exception ''boom''"]
    num_articles_when_present [where rep = "fst (run_research_subagent sample_post sample_sdk 3 (JStr ''down'') ''primary'')"
      and post = sample_post and sdk = sample_sdk and n = 3 and q = "JStr ''down''" and qt = "''primary''"
      and sr = "serper_search sample_post (JStr ''down'')" and ex = "Exception ''boom''"]
  by (simp add: sample_search sample_search_down sample_hits_def sample_branch)

section \<open>Search failures, skipped hits and previews\<close>










text \<open>
  C9: a hit whose \<^verbatim>\<open>link\<close> is absent or empty yields no article. The positions of the
  articles are exactly the ranks, among the hits taken, of the hits with a non-empty URL,
  so they increase strictly and skip the ranks of the hits left out; the articles and the
  hits left out together number \<open>min(limit, number of hits)\<close>. On the sample provider
  (three hits, the second without a link) the positions are 1 and 3, fewer articles than
  \<open>min(3, 3)\<close>.
\<close>

theorem hits_without_url_are_skipped:
  assumes "rep = fst (run_research_subagent post sdk num_results q qt)"
    and "taken = py_slice_to num_results (sr_results (serper_search post q))"
  shows "(\<forall>a \<in> set (articles rep). url a \<noteq> [])
    \<and> map position (articles rep) = filter (\<lambda>i. hit_url (taken ! (i - 1)) \<noteq> []) [1 ..< 1 + length taken]
    \<and> sorted_wrt (<) (map position (articles rep))
    \<and> length (articles rep) + length (filter (\<lambda>h. hit_url h = []) taken) = length taken
    \<and> (0 \<le> num_results \<longrightarrow> length taken = min (nat num_results) (length (sr_results (serper_search post q))))
    \<and> map position (articles (fst (run_research_subagent sample_post sample_sdk 3 (JStr ''q'') ''primary''))) = [1, 3]
    \<and> length (articles (fst (run_research_subagent sample_post sample_sdk 3 (JStr ''q'') ''primary'')))
         < min (nat 3) (length (sr_results (serper_search sample_post (JStr ''q''))))"
proof -
  have arts: "articles rep = map (emit sdk) (ranked 1 taken)"
    using assms by (simp add: branch_articles)
  have c1: "\<forall>a \<in> set (articles rep). url a \<noteq> []"
    using ranked_mem [of _ 1 taken] by (auto simp: arts emit_fields)
  have c2: "map position (articles rep) = filter (\<lambda>i. hit_url (taken ! (i - 1)) \<noteq> []) [1 ..< 1 + length taken]"
    by (simp only: arts map_position_emit ranked_fst)
  have c3: "sorted_wrt (<) (map position (articles rep))"
    by (simp only: arts map_position_emit ranked_sorted)
  have "length (filter (\<lambda>h. hit_url h \<noteq> []) taken) + length (filter (\<lambda>h. \<not> hit_url h \<noteq> []) taken) = length taken"
    by (rule sum_length_filter_compl)
  then have c4: "length (articles rep) + length (filter (\<lambda>h. hit_url h = []) taken) = length taken"
    by (simp add: arts ranked_count)
  have c5: "0 \<le> num_results \<longrightarrow> length taken = min (nat num_results) (length (sr_results (serper_search post q)))"
    using assms(2) by (simp add: py_slice_to_min)
  have c6: "map position (articles (fst (run_research_subagent sample_post sample_sdk 3 (JStr ''q'') ''primary''))) = [1, 3]"
    by (simp add: sample_branch)
  have c7: "length (articles (fst (run_research_subagent sample_post sample_sdk 3 (JStr ''q'') ''primary'')))
         < min (nat 3) (length (sr_results (serper_search sample_post (JStr ''q''))))"
    by (simp add: sample_branch sample_search sample_hits_def)
  from c1 c2 c3 c4 c5 c6 c7 show ?thesis by blast
qed

theorem hits_without_url_are_skipped_witness:
  "map url (articles (fst (run_research_subagent sample_post sample_sdk 3 (JStr ''q'') ''orthogonal_1'')))
     = [''http://a'', ''http://c'']
   \<and> map position (articles (fst (run_research_subagent sample_post sample_sdk 3 (JStr ''q'') ''orthogonal_1'')))
     = [1, 3]
   \<and> length (articles (fst (run_research_subagent sample_post sample_sdk 3 (JStr ''q'') ''orthogonal_1''))) + 1 = 3"
  using hits_without_url_are_skipped [where rep = "fst (run_research_subagent sample_post sample_sdk 3 (JStr ''q'') ''orthogonal_1'')"
      and post = sample_post and sdk = sample_sdk and num_results = 3 and q = "JStr ''q''" and qt = "''orthogonal_1''"
      and taken = "py_slice_to 3 (sr_results (serper_search sample_post (JStr ''q'')))"]
  by (simp add: sample_branch sample_search py_slice_to_def sample_hits_def hit_url_def)

section \<open>Article previews\<close>

lemma emit_preview:
  "content_preview (emit sdk ih) =
     (case fetch_url_content sdk (url (emit sdk ih)) of Some c \<Rightarrow> take 500 c @ ''...'' | None \<Rightarrow> snippet (emit sdk ih))"
  "content_length (emit sdk ih) =
     (case fetch_url_content sdk (url (emit sdk ih)) of Some c \<Rightarrow> length c | None \<Rightarrow> 0)"
  "scraped (emit sdk ih) = (fetch_url_content sdk (url (emit sdk ih)) \<noteq> None)"
  by (simp_all add: emit_def article_data_def split: option.splits)

lemma emit_same_fetch:
  "sdk' (hit_url (snd ih)) = sdk (hit_url (snd ih)) \<Longrightarrow> emit sdk' ih = emit sdk ih"
  by (simp add: emit_def fetch_url_content_def)

text \<open>
  C5, as the code has it: for every article of a branch, when the fetch returned content,
  \<open>content_preview\<close> is the first 500 characters of the content followed by the marker
  \<^verbatim>\<open>...\<close>, which is appended in every case (at most 503 characters; the spec's
  \<open>fetched\<close> flag is the key \<^verbatim>\<open>scraped\<close>); when the fetch raised or returned no
  text, the article is emitted all the same with \<open>scraped\<close> false, length 0 and the
  hit's snippet as preview. The article depends on the fetch of its own URL only: it is
  emitted unchanged whatever the fetches of the other URLs return.
\<close>

theorem preview_of_every_article:
  assumes "a \<in> set (articles (fst (run_research_subagent post sdk n q qt)))"
  shows "(\<forall>c. fetch_url_content sdk (url a) = Some c \<longrightarrow>
            scraped a \<and> content_preview a = take 500 c @ ''...'' \<and> content_length a = length c
            \<and> length (content_preview a) \<le> 503)
    \<and> (fetch_url_content sdk (url a) = None \<longrightarrow>
          \<not> scraped a \<and> content_preview a = snippet a \<and> content_length a = 0)
    \<and> (\<forall>e. sdk (url a) = Inl e \<longrightarrow> fetch_url_content sdk (url a) = None)
    \<and> (\<forall>msgs. sdk (url a) = Inr msgs \<and> collect_text msgs = [] \<longrightarrow> fetch_url_content sdk (url a) = None)
    \<and> (\<forall>sdk'. sdk' (url a) = sdk (url a) \<longrightarrow>
          a \<in> set (articles (fst (run_research_subagent post sdk' n q qt))))"
proof -
  let ?r = "ranked 1 (py_slice_to n (sr_results (serper_search post q)))"
  from assms obtain ih where ih: "ih \<in> set ?r" and a: "a = emit sdk ih"
    by (auto simp: branch_articles)
  have c1: "\<forall>c. fetch_url_content sdk (url a) = Some c \<longrightarrow>
            scraped a \<and> content_preview a = take 500 c @ ''...'' \<and> content_length a = length c
            \<and> length (content_preview a) \<le> 503"
    by (simp add: a emit_preview)
  have c2: "fetch_url_content sdk (url a) = None \<longrightarrow>
          \<not> scraped a \<and> content_preview a = snippet a \<and> content_length a = 0"
    by (simp add: a emit_preview)
  have c3: "\<forall>e. sdk (url a) = Inl e \<longrightarrow> fetch_url_content sdk (url a) = None"
    by (simp add: fetch_url_content_def)
  have c4: "\<forall>msgs. sdk (url a) = Inr msgs \<and> collect_text msgs = [] \<longrightarrow> fetch_url_content sdk (url a) = None"
    by (simp add: fetch_url_content_def)
  have c5: "a \<in> set (articles (fst (run_research_subagent post sdk' n q qt)))"
    if "sdk' (url a) = sdk (url a)" for sdk'
  proof -
    from that have "sdk' (hit_url (snd ih)) = sdk (hit_url (snd ih))"
      by (simp add: a emit_fields)
    then have "emit sdk' ih = emit sdk ih"
      by (rule emit_same_fetch)
    then have "emit sdk' ih = a"
      by (simp add: a)
    with ih show ?thesis
      by (auto simp: branch_articles)
  qed
  from c1 c2 c3 c4 c5 show ?thesis by blast
qed

theorem preview_of_every_article_witness:
  "\<lparr>position = 3, title = ''No title'', url = ''http://c'', snippet = ''sc'',
     content_preview = ''sc'', content_length = 0, scraped = False\<rparr>
     \<in> set (articles (fst (run_research_subagent sample_post sample_sdk 3 (JStr ''q'') ''primary'')))
   \<and> fetch_url_content sample_sdk ''http://c'' = None
   \<and> \<lparr>position = 1, title = ''A'', url = ''http://a'', snippet = ''sa'',
     content_preview = ''abc...'', content_length = 3, scraped = True\<rparr>
     \<in> set (articles (fst (run_research_subagent sample_post sample_sdk 3 (JStr ''q'') ''primary'')))
   \<and> fetch_url_content sample_sdk ''http://a'' = Some ''abc''"
  using preview_of_every_article [where a = "\<lparr>position = 3, title = ''No title'', url = ''http://c'', snippet = ''sc'',
     content_preview = ''sc'', content_length = 0, scraped = False\<rparr>"
      and post = sample_post and sdk = sample_sdk and n = 3 and q = "JStr ''q''" and qt = "''primary''"]
    preview_of_every_article [where a = "\<lparr>position = 1, title = ''A'', url = ''http://a'', snippet = ''sa'',
     content_preview = ''abc...'', content_length = 3, scraped = True\<rparr>"
      and post = sample_post and sdk = sample_sdk and n = 3 and q = "JStr ''q''" and qt = "''primary''"]
  by (simp add: sample_branch sample_fetch)

text \<open>
  The marker is there although nothing was cut: the sample fetch returns the
  three characters \<^verbatim>\<open>abc\<close>, all within the budget, and the preview is
  \<^verbatim>\<open>abc...\<close>.
\<close>

theorem preview_ellipsis_counterexample:
  "fetch_url_content sample_sdk ''http://a'' = Some ''abc''
   \<and> take 500 ''abc'' = ''abc''
   \<and> map url (articles (fst (run_research_subagent sample_post sample_sdk 3 (JStr ''q'') ''primary'')))
        = [''http://a'', ''http://c'']
   \<and> map content_preview (articles (fst (run_research_subagent sample_post sample_sdk 3 (JStr ''q'') ''primary'')))
        = [''abc...'', ''sc'']"
  by (simp add: sample_branch sample_fetch)

section \<open>The report aggregate\<close>

lemma summarize_articles:
  "bs_articles (summarize r) =
     map (\<lambda>a. \<lparr>as_title = title a, as_url = url a, as_snippet = snippet a,
               as_content_preview = take 300 (content_preview a)\<rparr>) (take 5 (articles r))"
  by (simp add: summarize_def)

text \<open>
  C7: the aggregate from which the report prompt is built carries the original query and
  the whole query set, and one summary per branch report, in order; each summary holds the
  first five articles of its report at most, and every preview in it is cut to 300
  characters at most. This aggregate is what the generation call receives.
\<close>

theorem report_aggregate_is_bounded:
  assumes "agg = build_summary oq refined research_results"
  shows "original_query agg = oq
    \<and> refined_queries agg = refined
    \<and> length (results_summary agg) = length research_results
    \<and> (\<forall>j < length research_results.
          bs_query_type (results_summary agg ! j) = query_type (research_results ! j)
          \<and> map as_url (bs_articles (results_summary agg ! j)) = map url (take 5 (articles (research_results ! j)))
          \<and> map as_content_preview (bs_articles (results_summary agg ! j))
              = map (\<lambda>a. take 300 (content_preview a)) (take 5 (articles (research_results ! j))))
    \<and> (\<forall>s \<in> set (results_summary agg).
          length (bs_articles s) \<le> 5 \<and> (\<forall>a \<in> set (bs_articles s). length (as_content_preview a) \<le> 300))
    \<and> generate_report sdk oq refined research_results
          = (case sdk agg of Inl e \<Rightarrow> Inl e | Inr msgs \<Rightarrow> Inr (collect_text msgs))"
proof -
  have c1: "original_query agg = oq" and c2: "refined_queries agg = refined"
    and c3: "length (results_summary agg) = length research_results"
    using assms by (simp_all add: build_summary_def)
  have c4: "\<forall>j < length research_results.
          bs_query_type (results_summary agg ! j) = query_type (research_results ! j)
          \<and> map as_url (bs_articles (results_summary agg ! j)) = map url (take 5 (articles (research_results ! j)))
          \<and> map as_content_preview (bs_articles (results_summary agg ! j))
              = map (\<lambda>a. take 300 (content_preview a)) (take 5 (articles (research_results ! j)))"
    using assms by (simp add: build_summary_def summarize_articles comp_def) (simp add: summarize_def)
  have c5: "\<forall>s \<in> set (results_summary agg).
          length (bs_articles s) \<le> 5 \<and> (\<forall>a \<in> set (bs_articles s). length (as_content_preview a) \<le> 300)"
    using assms by (auto simp: build_summary_def summarize_articles)
  have c6: "generate_report sdk oq refined research_results
          = (case sdk agg of Inl e \<Rightarrow> Inl e | Inr msgs \<Rightarrow> Inr (collect_text msgs))"
    using assms by (simp add: generate_report_def)
  from c1 c2 c3 c4 c5 c6 show ?thesis by blast
qed

theorem report_aggregate_is_bounded_witness:
  "original_query (build_summary ''q'' (fallback_queries ''q'') [big_report]) = ''q''
   \<and> refined_queries (build_summary ''q'' (fallback_queries ''q'') [big_report]) = fallback_queries ''q''
   \<and> map (\<lambda>s. length (bs_articles s)) (results_summary (build_summary ''q'' (fallback_queries ''q'') [big_report])) = [5]
   \<and> length (articles big_report) = 6
   \<and> map as_content_preview (bs_articles (results_summary (build_summary ''q'' (fallback_queries ''q'') [big_report]) ! 0))
        = replicate 5 (replicate 300 CHR ''x'')"
  using report_aggregate_is_bounded [where agg = "build_summary ''q'' (fallback_queries ''q'') [big_report]"
      and oq = "''q''" and refined = "fallback_queries ''q''" and research_results = "[big_report]"]
  by (simp add: build_summary_def summarize_def big_report_def long_article_def)

section \<open>The fan-out: one report per launched task\<close>

lemma make_tasks_all:
  assumes "\<forall>qt \<in> set qts. truthy (dict_get refined qt (JStr []))"
  shows "make_tasks refined qts = map (\<lambda>qt. (dict_get refined qt (JStr []), qt)) qts"
  using assms by (induction qts) (simp_all add: Let_def)

lemma execute_length:
  "\<exists>reps. execute_parallel_research fault post sdk n refined = Inr reps
     \<and> length reps = length (filter (\<lambda>qt. truthy (dict_get refined qt (JStr []))) query_types)"
  unfolding execute_closed by (simp add: make_tasks_filter)

lemma execute_all_truthy:
  assumes "\<forall>qt \<in> set query_types. truthy (dict_get refined qt (JStr []))"
  shows "execute_parallel_research fault post sdk n refined =
           Inr (map (\<lambda>qt. case fault qt of
                             Some ex \<Rightarrow> fault_report qt ex
                           | None \<Rightarrow> fst (run_research_subagent post sdk n (dict_get refined qt (JStr [])) qt))
                    query_types)"
  unfolding execute_closed make_tasks_all [OF assms]
  by (simp add: query_types_def run_task_def split: option.splits)

text \<open>
  Whatever the query set, the fan-out returns, with one report per entry among
  \<open>primary\<close>, \<open>orthogonal_1\<close>, \<open>orthogonal_2\<close> that is present and non-empty (an entry
  that is missing or empty launches no task); with all three non-empty, the reports are
  those of the three branches in the order of the tags.
\<close>

lemma fan_out_one_report_per_launched_task:
  "(\<exists>reps. execute_parallel_research fault post sdk n refined = Inr reps
      \<and> length reps = length (filter (\<lambda>qt. truthy (dict_get refined qt (JStr []))) query_types))
   \<and> ((\<forall>qt \<in> set query_types. truthy (dict_get refined qt (JStr []))) \<longrightarrow>
        execute_parallel_research fault post sdk n refined =
          Inr (map (\<lambda>qt. case fault qt of
                            Some ex \<Rightarrow> fault_report qt ex
                          | None \<Rightarrow> fst (run_research_subagent post sdk n (dict_get refined qt (JStr [])) qt))
                   query_types))"
  using execute_length [of fault post sdk n refined] execute_all_truthy [of refined fault post sdk n]
  by blast

text \<open>
  C1: for every refined query set (its \<open>primary\<close>, \<open>orthogonal_1\<close> and \<open>orthogonal_2\<close>
  are non-empty strings, the invariant of a query set), the fan-out returns exactly three
  reports, one per expanded query, in the order primary, orthogonal_1, orthogonal_2:
  \<^verbatim>\<open>gather\<close> hands the outcomes back in the order of the tasks, whatever the order in
  which they complete. The report of a branch whose task raised is built at the fan-out:
  it carries that branch's tag, the fault's description as \<open>error\<close> and no articles. The
  report of every other branch is that branch's own report, whatever its siblings did.
\<close>

theorem fan_out_three_reports_in_canonical_order:
  assumes "map_of refined ''primary'' = Some (JStr p)" and "p \<noteq> []"
    and "map_of refined ''orthogonal_1'' = Some (JStr oa)" and "oa \<noteq> []"
    and "map_of refined ''orthogonal_2'' = Some (JStr ob)" and "ob \<noteq> []"
  shows "\<exists>r1 r2 r3.
      execute_parallel_research fault post sdk n refined = Inr [r1, r2, r3]
    \<and> query_type r1 = ''primary'' \<and> query_type r2 = ''orthogonal_1'' \<and> query_type r3 = ''orthogonal_2''
    \<and> r1 = (case fault ''primary'' of
              Some ex \<Rightarrow> \<lparr>query_type = ''primary'', query = None, error = Some (str_exn ex),
                          num_articles = None, articles = [], search_metadata = None\<rparr>
            | None \<Rightarrow> fst (run_research_subagent post sdk n (JStr p) ''primary''))
    \<and> r2 = (case fault ''orthogonal_1'' of
              Some ex \<Rightarrow> \<lparr>query_type = ''orthogonal_1'', query = None, error = Some (str_exn ex),
                          num_articles = None, articles = [], search_metadata = None\<rparr>
            | None \<Rightarrow> fst (run_research_subagent post sdk n (JStr oa) ''orthogonal_1''))
    \<and> r3 = (case fault ''orthogonal_2'' of
              Some ex \<Rightarrow> \<lparr>query_type = ''orthogonal_2'', query = None, error = Some (str_exn ex),
                          num_articles = None, articles = [], search_metadata = None\<rparr>
            | None \<Rightarrow> fst (run_research_subagent post sdk n (JStr ob) ''orthogonal_2''))"
proof -
  have all: "\<forall>qt \<in> set query_types. truthy (dict_get refined qt (JStr []))"
    using assms by (simp add: query_types_def dict_get_def)
  have ex: "execute_parallel_research fault post sdk n refined =
      Inr [case fault ''primary'' of Some ex \<Rightarrow> fault_report ''primary'' ex
           | None \<Rightarrow> fst (run_research_subagent post sdk n (JStr p) ''primary''),
           case fault ''orthogonal_1'' of Some ex \<Rightarrow> fault_report ''orthogonal_1'' ex
           | None \<Rightarrow> fst (run_research_subagent post sdk n (JStr oa) ''orthogonal_1''),
           case fault ''orthogonal_2'' of Some ex \<Rightarrow> fault_report ''orthogonal_2'' ex
           | None \<Rightarrow> fst (run_research_subagent post sdk n (JStr ob) ''orthogonal_2'')]"
    unfolding execute_all_truthy [OF all]
    using assms by (simp add: query_types_def dict_get_def split: option.splits)
  show ?thesis
    unfolding ex
    by (simp add: fault_report_def branch_query_type split: option.splits)
qed

theorem fan_out_three_reports_in_canonical_order_witness:
  "execute_parallel_research (\<lambda>qt. if qt = ''orthogonal_1'' then Some (Exception ''boom'') else None)
      sample_post sample_sdk 3 (fallback_queries ''q'')
     = Inr [fst (run_research_subagent sample_post sample_sdk 3 (JStr ''q'') ''primary''),
            \<lparr>query_type = ''orthogonal_1'', query = None, error = Some ''boom'',
              num_articles = None, articles = [], search_metadata = None\<rparr>,
            fst (run_research_subagent sample_post sample_sdk 3 (JStr ''q expert analysis'') ''orthogonal_2'')]"
  using fan_out_three_reports_in_canonical_order [where refined = "fallback_queries ''q''"
      and p = "''q''" and oa = "''q latest research''" and ob = "''q expert analysis''"
      and fault = "\<lambda>qt. if qt = ''orthogonal_1'' then Some (Exception ''boom'') else None"
      and post = sample_post and sdk = sample_sdk and n = 3]
  by (auto simp: fallback_queries_def)

text \<open>
  Outside the invariant, a dict whose \<open>primary\<close> is the empty string launches two tasks
  only, and two reports come back.
\<close>

lemma fan_out_skips_empty_entry:
  "map_sum id (map query_type)
     (execute_parallel_research (\<lambda>qt. None) sample_post sample_sdk 3 empty_primary)
   = Inr [''orthogonal_1'', ''orthogonal_2'']"
  by (simp add: execute_closed empty_primary_def query_types_def dict_get_def run_task_def
      branch_query_type)

text \<open>
  With the same dict, a fault of the \<open>orthogonal_1\<close> task is reported under the tag
  \<open>primary\<close>: line 281 indexes \<^verbatim>\<open>query_types\<close> by the position among the launched
  tasks, not among the three tags.
\<close>

lemma fault_tag_follows_task_index:
  "map_sum id (map query_type)
     (execute_parallel_research (\<lambda>qt. if qt = ''orthogonal_1'' then Some (Exception ''boom'') else None)
        sample_post sample_sdk 3 empty_primary)
   = Inr [''primary'', ''orthogonal_2'']"
  by (simp add: execute_closed empty_primary_def query_types_def dict_get_def run_task_def
      branch_query_type fault_report_def)

section \<open>Query refinement: cleaning never raises, fallback, missing keys\<close>

lemma split_from_nonempty: "split_from sep acc s \<noteq> []"
  by (induction sep acc s rule: split_from.induct) auto

lemma split_first: "\<exists>b. py_index (split a sep) 0 = Inr b"
  using split_from_nonempty [of sep "[]" a]
  by (simp add: py_index_def split_def)

lemma split_second:
  assumes "sep \<noteq> []" and "startswith t sep"
  shows "\<exists>a. py_index (split t sep) 1 = Inr a"
proof -
  from assms have "t \<noteq> []"
    by (auto simp: startswith_def)
  then obtain c cs where t: "t = c # cs"
    by (cases t) auto
  have "split t sep = [] # split_from sep [] (drop (length sep) t)"
    using assms by (simp add: split_def t)
  moreover have "split_from sep [] (drop (length sep) t) \<noteq> []"
    by (rule split_from_nonempty)
  ultimately have "1 < length (split t sep)"
    by (cases "split_from sep [] (drop (length sep) t)") auto
  then show ?thesis
    by (simp add: py_index_def)
qed

lemma clean_response_total: "\<exists>c. clean_response t = Inr c"
proof -
  have fj: "fence_json \<noteq> []" and f: "fence \<noteq> []"
    by (simp_all add: fence_json_def fence_def)
  show ?thesis
  proof (cases "startswith (strip t) fence_json")
    case True
    from split_second [OF fj True] obtain a where a: "py_index (split (strip t) fence_json) 1 = Inr a" ..
    from split_first [of a fence] obtain b where b: "py_index (split a fence) 0 = Inr b" ..
    from True a b show ?thesis by (simp add: clean_response_def)
  next
    case nj: False
    show ?thesis
    proof (cases "startswith (strip t) fence")
      case True
      from split_second [OF f True] obtain a where a: "py_index (split (strip t) fence) 1 = Inr a" ..
      from split_first [of a fence] obtain b where b: "py_index (split a fence) 0 = Inr b" ..
      from nj True a b show ?thesis by (simp add: clean_response_def)
    next
      case False
      with nj show ?thesis by (simp add: clean_response_def)
    qed
  qed
qed

lemma clean_fenced:
  "clean_response (fence_json @ [CHR 0x0A] @ ''{}'' @ [CHR 0x0A] @ fence @ [CHR 0x0A]) = Inr ''{}''"
  by (simp add: clean_response_def strip_def py_isspace_def startswith_def fence_json_def fence_def
      split_def py_index_def)

lemma clean_prose: "clean_response ''Here are some ideas'' = Inr ''Here are some ideas''"
  by (simp add: clean_response_def strip_def py_isspace_def startswith_def fence_json_def fence_def)

lemma clean_missing_primary: "clean_response missing_primary_text = Inr missing_primary_text"
  by (simp add: clean_response_def strip_def py_isspace_def startswith_def fence_json_def fence_def
      missing_primary_text_def)


lemma refine_fallback:
  assumes "sdk uq = Inr msgs" and "clean_response (collect_text msgs) = Inr cleaned"
    and "decode cleaned = Inl (JSONDecodeError m)"
  shows "refine_queries decode sdk uq = Inr (fallback_queries uq)"
  using assms by (simp add: refine_queries_def parse_refined_def)

text \<open>
  C3: whenever the fallback triggers (the decoder raises \<^verbatim>\<open>JSONDecodeError\<close> on the
  cleaned generation output), the query set returned has \<open>original\<close> and \<open>primary\<close>
  equal to the user query verbatim, \<open>orthogonal_1\<close> equal to the query followed by the
  fixed recent-developments qualifier, which reads \<^verbatim>\<open> latest research\<close>,
  \<open>orthogonal_2\<close> equal to the query followed by \<^verbatim>\<open> expert analysis\<close>, and the three
  fixed reasoning strings.
\<close>

theorem fallback_query_set:
  assumes "sdk uq = Inr msgs" and "clean_response (collect_text msgs) = Inr cleaned"
    and "decode cleaned = Inl (JSONDecodeError m)"
  shows "refine_queries decode sdk uq = Inr (fallback_queries uq)
    \<and> map_of (fallback_queries uq) ''original'' = Some (JStr uq)
    \<and> map_of (fallback_queries uq) ''primary'' = Some (JStr uq)
    \<and> map_of (fallback_queries uq) ''orthogonal_1'' = Some (JStr (uq @ '' latest research''))
    \<and> map_of (fallback_queries uq) ''orthogonal_2'' = Some (JStr (uq @ '' expert analysis''))
    \<and> map_of (fallback_queries uq) ''reasoning'' =
          Some (JObj [(''primary'', JStr ''Using original query''),
                      (''orthogonal_1'', JStr ''Latest research angle''),
                      (''orthogonal_2'', JStr ''Expert analysis angle'')])"
  using assms by (simp add: refine_queries_def parse_refined_def fallback_queries_def)

theorem fallback_query_set_witness:
  "refine_queries sample_loads prose_sdk ''quantum computing'' =
     Inr [(''original'', JStr ''quantum computing''),
          (''primary'', JStr ''quantum computing''),
          (''orthogonal_1'', JStr ''quantum computing latest research''),
          (''orthogonal_2'', JStr ''quantum computing expert analysis''),
          (''reasoning'', JObj
             [(''primary'', JStr ''Using original query''),
              (''orthogonal_1'', JStr ''Latest research angle''),
              (''orthogonal_2'', JStr ''Expert analysis angle'')])]"
proof -
  have a: "prose_sdk ''quantum computing'' = Inr [Message [TextBlock ''Here are some ideas'']]"
    by (simp add: prose_sdk_def)
  have b: "clean_response (collect_text [Message [TextBlock ''Here are some ideas'']]) = Inr ''Here are some ideas''"
    by (simp add: collect_text_def clean_prose)
  have c: "sample_loads ''Here are some ideas'' = Inl (JSONDecodeError ''Expecting value'')"
    by (simp add: sample_loads_def missing_primary_text_def)
  from fallback_query_set [where sdk = prose_sdk and uq = "''quantum computing''"
      and msgs = "[Message [TextBlock ''Here are some ideas'']]" and cleaned = "''Here are some ideas''"
      and decode = sample_loads and m = "''Expecting value''", OF a b c]
  show ?thesis
    by (simp add: fallback_queries_def)
qed

text \<open>
  C2 at a well-formed JSON object without the key \<^verbatim>\<open>primary\<close>: the log line 215
  subscripts the object, the \<^verbatim>\<open>KeyError\<close> is not a \<^verbatim>\<open>JSONDecodeError\<close>, and
  \<^verbatim>\<open>_refine_queries\<close> raises instead of falling back.
\<close>

theorem refine_raises_on_missing_key:
  "refine_queries sample_loads (\<lambda>user_query. Inr [Message [TextBlock missing_primary_text]]) ''q''
     = Inl (KeyError ''primary'')"
  by (simp add: refine_queries_def parse_refined_def collect_text_def clean_missing_primary sample_loads_def)

lemma refine_raises_KeyError:
  assumes "sdk uq = Inr msgs" and "clean_response (collect_text msgs) = Inr cleaned"
    and "decode cleaned = Inr (JObj kvs)" and "map_of kvs ''primary'' = None"
  shows "refine_queries decode sdk uq = Inl (KeyError ''primary'')"
  using assms by (simp add: refine_queries_def parse_refined_def)

lemma refine_returns_unvalidated:
  assumes "sdk uq = Inr msgs" and "clean_response (collect_text msgs) = Inr cleaned"
    and "decode cleaned = Inr (JObj kvs)"
    and "map_of kvs ''primary'' = Some p" and "map_of kvs ''orthogonal_1'' = Some o1"
    and "map_of kvs ''orthogonal_2'' = Some o2"
  shows "refine_queries decode sdk uq = Inr kvs"
  using assms by (simp add: refine_queries_def parse_refined_def)

section \<open>The orchestrator: fatal and local failures\<close>

lemma orchestrator_unfold:
  assumes "refine_queries (loads w) (sdk_refine w) uq = Inr refined"
    and "execute_parallel_research (task_fault w) (http_post w) (sdk_fetch w) (num_results_cfg w) refined = Inr reps"
  shows "research_with_orchestrator w uq =
           (case sdk_report w (build_summary uq refined reps) of
              Inl e \<Rightarrow> Inl e
            | Inr msgs \<Rightarrow> Inr \<lparr>session_dir = session_path w, queries = refined, results = reps,
                              final_report = collect_text msgs\<rparr>)"
  using assms by (simp add: research_with_orchestrator_def generate_report_def split: sum.splits)

lemma failed_task_report:
  assumes "fault (snd t) \<noteq> None \<or> sr_error (serper_search post (fst t)) \<noteq> None
             \<or> sr_results (serper_search post (fst t)) = []"
  shows "articles (case run_task fault post sdk n t of Inl ex \<Rightarrow> fault_report qt' ex | Inr rep \<Rightarrow> rep) = []
       \<and> error (case run_task fault post sdk n t of Inl ex \<Rightarrow> fault_report qt' ex | Inr rep \<Rightarrow> rep) \<noteq> None"
proof (cases "fault (snd t)")
  case (Some e)
  then show ?thesis by (simp add: run_task_def fault_report_def)
next
  case None
  with assms have "sr_error (serper_search post (fst t)) \<noteq> None \<or> sr_results (serper_search post (fst t)) = []"
    by simp
  from branch_failed [where post = post and q = "fst t" and sdk = sdk and n = n and qt = "snd t", OF this] None
  show ?thesis
    by (simp add: run_task_def)
qed

text \<open>
  C8: once the queries are refined, the fan-out always returns its reports. If the
  report generation call then raises, the run raises that fault and returns no result;
  nothing catches it and there is no template. If it returns text, the run returns the
  complete result (session, queries, all reports, report text), and in it every branch
  that failed locally (its task raised, its search failed, or its search found nothing)
  shows an empty articles list and an error string.
\<close>

theorem report_fault_is_fatal_branch_faults_are_not:
  assumes "refine_queries (loads w) (sdk_refine w) uq = Inr refined"
    and "tasks = make_tasks refined query_types"
  shows "\<exists>reps.
      execute_parallel_research (task_fault w) (http_post w) (sdk_fetch w) (num_results_cfg w) refined = Inr reps
    \<and> length reps = length tasks
    \<and> (\<forall>e. sdk_report w (build_summary uq refined reps) = Inl e \<longrightarrow>
           research_with_orchestrator w uq = Inl e)
    \<and> (\<forall>msgs. sdk_report w (build_summary uq refined reps) = Inr msgs \<longrightarrow>
           research_with_orchestrator w uq =
             Inr \<lparr>session_dir = session_path w, queries = refined, results = reps,
                  final_report = collect_text msgs\<rparr>)
    \<and> (\<forall>j < length tasks.
           task_fault w (snd (tasks ! j)) \<noteq> None
           \<or> sr_error (serper_search (http_post w) (fst (tasks ! j))) \<noteq> None
           \<or> sr_results (serper_search (http_post w) (fst (tasks ! j))) = []
           \<longrightarrow> articles (reps ! j) = [] \<and> error (reps ! j) \<noteq> None)"
proof -
  obtain reps where ex: "execute_parallel_research (task_fault w) (http_post w) (sdk_fetch w) (num_results_cfg w) refined = Inr reps"
    using execute_closed by blast
  have len: "length reps = length tasks"
    using execute_nth(1) [OF ex] assms(2) by simp
  have c3: "\<forall>e. sdk_report w (build_summary uq refined reps) = Inl e \<longrightarrow>
           research_with_orchestrator w uq = Inl e"
    by (simp add: orchestrator_unfold [OF assms(1) ex])
  have c4: "\<forall>msgs. sdk_report w (build_summary uq refined reps) = Inr msgs \<longrightarrow>
           research_with_orchestrator w uq =
             Inr \<lparr>session_dir = session_path w, queries = refined, results = reps,
                  final_report = collect_text msgs\<rparr>"
    by (simp add: orchestrator_unfold [OF assms(1) ex])
  have c5: "articles (reps ! j) = [] \<and> error (reps ! j) \<noteq> None"
    if j: "j < length tasks"
      and f: "task_fault w (snd (tasks ! j)) \<noteq> None
           \<or> sr_error (serper_search (http_post w) (fst (tasks ! j))) \<noteq> None
           \<or> sr_results (serper_search (http_post w) (fst (tasks ! j))) = []" for j
  proof -
    from j len have "j < length reps" by simp
    from execute_nth(2) [OF ex this] assms(2)
    have "reps ! j = (case run_task (task_fault w) (http_post w) (sdk_fetch w) (num_results_cfg w) (tasks ! j) of
                        Inl ex \<Rightarrow> fault_report (query_types ! j) ex | Inr rep \<Rightarrow> rep)"
      by simp
    with failed_task_report [where fault = "task_fault w" and post = "http_post w" and t = "tasks ! j"
        and sdk = "sdk_fetch w" and n = "num_results_cfg w" and qt' = "query_types ! j", OF f]
    show ?thesis by simp
  qed
  from ex len c3 c4 c5 show ?thesis by blast
qed


lemma sample_world_refine:
  "refine_queries sample_loads prose_sdk ''q'' = Inr (fallback_queries ''q'')"
  by (simp add: refine_queries_def parse_refined_def prose_sdk_def collect_text_def clean_prose
      sample_loads_def missing_primary_text_def)

lemma sample_world_fan_out:
  "execute_parallel_research (\<lambda>qt. None) down_post sample_sdk 3 (fallback_queries ''q'') =
     Inr [\<lparr>query_type = ''primary'', query = Some (JStr ''q''), error = Some ''timed out'',
            num_articles = None, articles = [], search_metadata = None\<rparr>,
          fst (run_research_subagent down_post sample_sdk 3 (JStr ''q latest research'') ''orthogonal_1''),
          fst (run_research_subagent down_post sample_sdk 3 (JStr ''q expert analysis'') ''orthogonal_2'')]"
proof -
  have all: "\<forall>qt \<in> set query_types. truthy (dict_get (fallback_queries ''q'') qt (JStr []))"
    by (simp add: query_types_def fallback_queries_def dict_get_def)
  have primary: "fst (run_research_subagent down_post sample_sdk 3 (JStr ''q'') ''primary'') =
      \<lparr>query_type = ''primary'', query = Some (JStr ''q''), error = Some ''timed out'',
       num_articles = None, articles = [], search_metadata = None\<rparr>"
    by (simp add: run_research_subagent_def serper_search_def try_search_def down_post_def)
  show ?thesis
    unfolding execute_all_truthy [OF all]
    by (simp add: query_types_def fallback_queries_def dict_get_def primary)
qed

theorem report_fault_is_fatal_branch_faults_are_not_witness:
  "research_with_orchestrator sample_world ''q'' =
     Inr \<lparr>session_dir = ''research_sessions/2025-01-01_00-00-00'',
          queries = fallback_queries ''q'',
          results =
            [\<lparr>query_type = ''primary'', query = Some (JStr ''q''), error = Some ''timed out'',
               num_articles = None, articles = [], search_metadata = None\<rparr>,
             fst (run_research_subagent down_post sample_sdk 3 (JStr ''q latest research'') ''orthogonal_1''),
             fst (run_research_subagent down_post sample_sdk 3 (JStr ''q expert analysis'') ''orthogonal_2'')],
          final_report = ''# Research Report: q''\<rparr>
   \<and> research_with_orchestrator
        (sample_world\<lparr>sdk_report := (\<lambda>agg. Inl (Exception ''generation failed''))\<rparr>) ''q''
       = Inl (Exception ''generation failed'')"
proof -
  let ?bad = "sample_world\<lparr>sdk_report := (\<lambda>agg. Inl (Exception ''generation failed''))\<rparr>"
  have r1: "refine_queries (loads sample_world) (sdk_refine sample_world) ''q'' = Inr (fallback_queries ''q'')"
    by (simp add: sample_world_def sample_world_refine)
  have r2: "refine_queries (loads ?bad) (sdk_refine ?bad) ''q'' = Inr (fallback_queries ''q'')"
    by (simp add: sample_world_def sample_world_refine)
  from report_fault_is_fatal_branch_faults_are_not [where w = sample_world and uq = "''q''"
      and refined = "fallback_queries ''q''" and tasks = "make_tasks (fallback_queries ''q'') query_types",
      OF r1 refl]
  obtain reps where ex: "execute_parallel_research (task_fault sample_world) (http_post sample_world)
        (sdk_fetch sample_world) (num_results_cfg sample_world) (fallback_queries ''q'') = Inr reps"
    and ok: "\<forall>msgs. sdk_report sample_world (build_summary ''q'' (fallback_queries ''q'') reps) = Inr msgs \<longrightarrow>
           research_with_orchestrator sample_world ''q'' =
             Inr \<lparr>session_dir = session_path sample_world, queries = fallback_queries ''q'', results = reps,
                  final_report = collect_text msgs\<rparr>"
    by blast
  from ex have reps: "reps =
            [\<lparr>query_type = ''primary'', query = Some (JStr ''q''), error = Some ''timed out'',
               num_articles = None, articles = [], search_metadata = None\<rparr>,
             fst (run_research_subagent down_post sample_sdk 3 (JStr ''q latest research'') ''orthogonal_1''),
             fst (run_research_subagent down_post sample_sdk 3 (JStr ''q expert analysis'') ''orthogonal_2'')]"
    by (simp add: sample_world_def sample_world_fan_out)
  from ok have good: "research_with_orchestrator sample_world ''q'' =
             Inr \<lparr>session_dir = session_path sample_world, queries = fallback_queries ''q'', results = reps,
                  final_report = ''# Research Report: q''\<rparr>"
    by (simp add: sample_world_def collect_text_def)
  from report_fault_is_fatal_branch_faults_are_not [where w = ?bad and uq = "''q''"
      and refined = "fallback_queries ''q''" and tasks = "make_tasks (fallback_queries ''q'') query_types",
      OF r2 refl]
  obtain reps' where bad: "\<forall>e. sdk_report ?bad (build_summary ''q'' (fallback_queries ''q'') reps') = Inl e \<longrightarrow>
           research_with_orchestrator ?bad ''q'' = Inl e"
    by blast
  then have "research_with_orchestrator ?bad ''q'' = Inl (Exception ''generation failed'')"
    by simp
  with good reps show ?thesis
    by (simp add: sample_world_def)
qed

end
